theory Spec2Isabelle
  imports Main
begin

section \<open>Python strings\<close>

text \<open>
  A Python \<open>str\<close> is modelled as a \<open>string\<close>: a list of characters, each a code point
  below 256. The operations are the ones \<open>SDO_images_collector.py\<close> calls.
\<close>

text \<open>
  \<open>str.isspace\<close> for one character: the code points below 256 that Python counts as
  whitespace, which are also the ones \<open>str.split()\<close> splits at.
\<close>

definition isspace :: "char \<Rightarrow> bool" where
  "isspace c = (c \<in> set [CHR 0x09, CHR 0x0A, CHR 0x0B, CHR 0x0C, CHR 0x0D,
                          CHR 0x1C, CHR 0x1D, CHR 0x1E, CHR 0x1F, CHR 0x20,
                          CHR 0x85, CHR 0xA0])"

text \<open>
  \<open>s.split(sep)\<close> for a separator of one character, with the characters of the current
  field accumulated in reverse. The result always has one field more than \<open>s\<close> has
  separators, so it is never empty.
\<close>

fun split_from :: "char \<Rightarrow> string \<Rightarrow> string \<Rightarrow> string list" where
  "split_from sep cur [] = [rev cur]"
| "split_from sep cur (c # cs) =
     (if c = sep then rev cur # split_from sep [] cs else split_from sep (c # cur) cs)"

definition split_sep :: "char \<Rightarrow> string \<Rightarrow> string list" where
  "split_sep sep s = split_from sep [] s"

text \<open>
  \<open>s.split()\<close>: the maximal runs of non-whitespace characters, in order. Leading and
  trailing whitespace gives no empty field, so the result is empty for a string that is
  empty or all whitespace.
\<close>

fun words_from :: "string \<Rightarrow> string \<Rightarrow> string list" where
  "words_from cur [] = (if cur = [] then [] else [rev cur])"
| "words_from cur (c # cs) =
     (if isspace c
      then (if cur = [] then words_from [] cs else rev cur # words_from [] cs)
      else words_from (c # cur) cs)"

definition split_ws :: "string \<Rightarrow> string list" where
  "split_ws s = words_from [] s"

text \<open>\<open>p in s\<close> for two strings: \<open>p\<close> occurs in \<open>s\<close> as a contiguous substring.\<close>

fun starts_with :: "string \<Rightarrow> string \<Rightarrow> bool" where
  "starts_with [] s = True"
| "starts_with (p # ps) [] = False"
| "starts_with (p # ps) (c # cs) = (p = c \<and> starts_with ps cs)"

fun str_in :: "string \<Rightarrow> string \<Rightarrow> bool" where
  "str_in p [] = (p = [])"
| "str_in p (c # cs) = (starts_with p (c # cs) \<or> str_in p cs)"

text \<open>\<open>s.replace(old, new)\<close> where \<open>old\<close> and \<open>new\<close> are one character each.\<close>

definition replace :: "char \<Rightarrow> char \<Rightarrow> string \<Rightarrow> string" where
  "replace old new s = map (\<lambda>c. if c = old then new else c) s"

section \<open>Exceptions and the log\<close>

text \<open>
  The exceptions that can travel through the script. \<open>RequestException\<close> stands for the
  whole \<open>requests.RequestException\<close> family (connection errors, timeouts, \<open>HTTPError\<close>),
  \<open>IOError\<close> for \<open>OSError\<close> and its subclasses; both carry the text that \<open>str(e)\<close>
  gives. \<open>ValueError\<close> is what the file operations of Python raise for a path that
  holds a NUL character; it is not an \<open>OSError\<close>. \<open>OtherError\<close> is any other exception
  that no \<open>except\<close> clause of the script names.
\<close>

datatype exn =
    RequestException string
  | IOError string
  | AttributeError
  | IndexError
  | TypeError
  | ValueError string
  | OtherError string

datatype level = INFO | ERROR

type_synonym log_record = "level \<times> string"

section \<open>Filename extractor\<close>

text \<open>
  The type token of a listing line: \<open>line.split(".")[0].split("_")[-1]\<close>. Both
  indexings are on the result of \<open>split\<close> with a separator, which is never empty.
\<close>

definition type_token :: "string \<Rightarrow> string" where
  "type_token line = last (split_sep CHR ''_'' (hd (split_sep CHR ''.'' line)))"

text \<open>
  The filter of the comprehension:
  \<open>date_time in line and line.split(".")[0].split("_")[-1] in type_images\<close>.
\<close>

definition selected :: "string list \<Rightarrow> string \<Rightarrow> string \<Rightarrow> bool" where
  "selected type_images date_time line =
     (str_in date_time line \<and> type_token line \<in> set type_images)"

text \<open>
  The list comprehension of \<open>extract_image_names\<close>, line by line. For a line that
  passes the filter, \<open>line.split()[0]\<close> raises \<open>IndexError\<close> when the line has no
  whitespace-delimited field, and the exception ends the comprehension.
\<close>

fun image_names_of :: "string list \<Rightarrow> string \<Rightarrow> string list \<Rightarrow> exn + string list" where
  "image_names_of type_images date_time [] = Inr []"
| "image_names_of type_images date_time (line # rest) =
     (if selected type_images date_time line
      then (case split_ws line of
              [] \<Rightarrow> Inl IndexError
            | name # _ \<Rightarrow>
                (case image_names_of type_images date_time rest of
                   Inl e \<Rightarrow> Inl e
                 | Inr names \<Rightarrow> Inr (name # names)))
      else image_names_of type_images date_time rest)"

text \<open>
  \<open>extract_image_names\<close>. The HTML parser is a library, taken as the parameter
  \<open>find_pre\<close>: for an HTML text it gives \<open>soup.find("pre")\<close>, \<open>None\<close> when the document
  has no \<open>pre\<close> element and otherwise the first one, represented by its \<open>get_text()\<close>.
  Calling \<open>get_text\<close> on \<open>None\<close> raises \<open>AttributeError\<close>.
\<close>

definition extract_image_names ::
  "(string \<Rightarrow> string option) \<Rightarrow> string \<Rightarrow> string list \<Rightarrow> string \<Rightarrow> exn + string list" where
  "extract_image_names find_pre html_content type_images date_time =
     (case find_pre html_content of
        None \<Rightarrow> Inl AttributeError
      | Some pre \<Rightarrow> image_names_of type_images date_time (split_sep CHR 0x0A pre))"

section \<open>The environment: network, file system, log\<close>

text \<open>
  What \<open>requests.get\<close> gives back: the fields of the response the script reads.
  \<open>http_error\<close> is the text of the \<open>HTTPError\<close> that \<open>raise_for_status\<close> builds for the
  response when its status is an error status.
\<close>

record response =
  status_code :: nat
  text_body :: string
  content :: string
  http_error :: string

datatype http_outcome = Raises exn | Responds response

text \<open>
  The file system: the directories, the files with their contents, and the paths at which
  the operating system refuses an operation, with the exception it raises there.
  \<open>CreateFails\<close> is a failure of \<open>mkdir\<close> or of \<open>open(path, "wb")\<close>; \<open>WriteFails n\<close> is a
  failure of \<open>write\<close> after \<open>n\<close> bytes. Paths are compared as strings.
\<close>

datatype fault = CreateFails exn | WriteFails nat exn

record filesystem =
  dirs :: "string set"
  files :: "string \<rightharpoonup> string"
  faults :: "string \<rightharpoonup> fault"

text \<open>
  The world the script runs in. \<open>responses w n url\<close> is what the network answers to a GET
  of \<open>url\<close> issued after \<open>n\<close> earlier requests; \<open>gets\<close> records the URLs requested so far,
  \<open>logs\<close> the records handed to \<open>logging\<close>, \<open>stdout\<close> what \<open>print\<close> and \<open>input\<close> wrote.
\<close>

record world =
  responses :: "nat \<Rightarrow> string \<Rightarrow> http_outcome"
  gets :: "string list"
  fs :: filesystem
  logs :: "log_record list"
  stdout :: "string list"

definition logging_info :: "string \<Rightarrow> world \<Rightarrow> world" where
  "logging_info msg w = w\<lparr>logs := logs w @ [(INFO, msg)]\<rparr>"

definition logging_error :: "string \<Rightarrow> world \<Rightarrow> world" where
  "logging_error msg w = w\<lparr>logs := logs w @ [(ERROR, msg)]\<rparr>"

definition print :: "string \<Rightarrow> world \<Rightarrow> world" where
  "print line w = w\<lparr>stdout := stdout w @ [line]\<rparr>"

text \<open>\<open>requests.get(url)\<close>: one request, answered by the network.\<close>

definition requests_get :: "string \<Rightarrow> world \<Rightarrow> (exn + response) \<times> world" where
  "requests_get url w =
     (case responses w (length (gets w)) url of
        Raises e \<Rightarrow> Inl e
      | Responds r \<Rightarrow> Inr r,
      w\<lparr>gets := gets w @ [url]\<rparr>)"

text \<open>\<open>response.raise_for_status()\<close>: an \<open>HTTPError\<close> for the statuses 400 to 599.\<close>

definition raise_for_status :: "response \<Rightarrow> exn + unit" where
  "raise_for_status r =
     (if 400 \<le> status_code r \<and> status_code r < 600
      then Inl (RequestException (http_error r)) else Inr ())"

text \<open>\<open>os.path.exists\<close>: false for a path that holds a NUL character.\<close>

definition os_path_exists :: "filesystem \<Rightarrow> string \<Rightarrow> bool" where
  "os_path_exists f path =
     (CHR 0x00 \<notin> set path \<and> (path \<in> dirs f \<or> files f path \<noteq> None))"

text \<open>
  \<open>os.path.join(a, *p)\<close> of \<open>posixpath\<close>: a component that starts with the separator
  replaces what was joined before it.
\<close>

fun os_path_join :: "string \<Rightarrow> string list \<Rightarrow> string" where
  "os_path_join path [] = path"
| "os_path_join path (b # bs) =
     os_path_join
       (if starts_with ''/'' b then b
        else if path = [] \<or> last path = CHR ''/'' then path @ b
        else path @ ''/'' @ b)
       bs"

text \<open>
  \<open>os.path.dirname\<close> of \<open>posixpath\<close>: the path up to its last separator, without the
  trailing separators unless it consists of separators only.
\<close>

definition os_path_dirname :: "string \<Rightarrow> string" where
  "os_path_dirname path =
     (let head = rev (dropWhile (\<lambda>c. c \<noteq> CHR ''/'') (rev path))
      in if list_all (\<lambda>c. c = CHR ''/'') head then head
         else rev (dropWhile (\<lambda>c. c = CHR ''/'') (rev head)))"

text \<open>
  \<open>os.mkdir\<close>, which refuses a path that holds a NUL character with a \<open>ValueError\<close>,
  and \<open>os.makedirs\<close>: the missing ancestors of the path are created first,
  outermost first, then the path itself. \<open>ancestors\<close> lists the ancestors of a path,
  innermost first. When a step fails, \<open>os.makedirs\<close> gives the exception and the file
  system with the directories created before it.
\<close>

definition os_mkdir :: "filesystem \<Rightarrow> string \<Rightarrow> exn + filesystem" where
  "os_mkdir f path =
     (if CHR 0x00 \<in> set path then Inl (ValueError ''embedded null byte'')
      else case faults f path of
        Some (CreateFails e) \<Rightarrow> Inl e
      | _ \<Rightarrow>
          if path = [] then Inl (IOError ''No such file or directory'')
          else if os_path_exists f path then Inl (IOError ''File exists'')
          else if os_path_dirname path \<noteq> [] \<and> os_path_dirname path \<notin> dirs f
          then Inl (IOError ''No such file or directory'')
          else Inr (f\<lparr>dirs := insert path (dirs f)\<rparr>))"

function ancestors :: "string \<Rightarrow> string list" where
  "ancestors path =
     (let d = os_path_dirname path
      in if d = [] \<or> length path \<le> length d then [] else d # ancestors d)"
  by pat_completeness auto
termination
  by (relation "measure length") auto

declare ancestors.simps [simp del]

fun mkdir_each :: "filesystem \<Rightarrow> string list \<Rightarrow> exn option \<times> filesystem" where
  "mkdir_each f [] = (None, f)"
| "mkdir_each f (d # ds) =
     (if os_path_exists f d then mkdir_each f ds
      else (case os_mkdir f d of Inl e \<Rightarrow> (Some e, f) | Inr f' \<Rightarrow> mkdir_each f' ds))"

definition os_makedirs :: "filesystem \<Rightarrow> string \<Rightarrow> exn option \<times> filesystem" where
  "os_makedirs f path =
     (case mkdir_each f (rev (ancestors path)) of
        (Some e, f') \<Rightarrow> (Some e, f')
      | (None, f') \<Rightarrow>
          (case os_mkdir f' path of Inl e \<Rightarrow> (Some e, f') | Inr f'' \<Rightarrow> (None, f'')))"

text \<open>
  \<open>with open(file_path, "wb") as file: file.write(data)\<close>: the exception raised, if any,
  and the file system afterwards. A path that holds a NUL character is refused with a
  \<open>ValueError\<close> before the file system is touched. Opening creates or truncates the
  file; a failed write leaves what was written before the failure.
\<close>

definition write_file :: "filesystem \<Rightarrow> string \<Rightarrow> string \<Rightarrow> exn option \<times> filesystem" where
  "write_file f path data =
     (if CHR 0x00 \<in> set path then (Some (ValueError ''embedded null byte''), f)
      else if path = [] then (Some (IOError ''No such file or directory''), f)
      else if path \<in> dirs f then (Some (IOError ''Is a directory''), f)
      else if os_path_dirname path \<noteq> [] \<and> os_path_dirname path \<notin> dirs f
      then (Some (IOError ''No such file or directory''), f)
      else (case faults f path of
              Some (CreateFails e) \<Rightarrow> (Some e, f)
            | Some (WriteFails n e) \<Rightarrow> (Some e, f\<lparr>files := (files f)(path \<mapsto> take n data)\<rparr>)
            | None \<Rightarrow> (None, f\<lparr>files := (files f)(path \<mapsto> data)\<rparr>)))"

section \<open>The script\<close>

definition BASE_IMAGE_DIR :: string where
  "BASE_IMAGE_DIR = ''images/imagesSDO''"

text \<open>
  \<open>fetch_html_content\<close>: the \<open>try\<close> block is the request and the status check; the
  \<open>except\<close> clause catches a \<open>RequestException\<close>, logs it and returns \<open>None\<close>. Any other
  exception leaves the function.
\<close>

definition fetch_html_content :: "string \<Rightarrow> world \<Rightarrow> (exn + string option) \<times> world" where
  "fetch_html_content url w =
     (case requests_get url w of
        (got, w1) \<Rightarrow>
          (case (case got of
                   Inl e \<Rightarrow> Inl e
                 | Inr r \<Rightarrow> (case raise_for_status r of Inl e \<Rightarrow> Inl e | Inr _ \<Rightarrow> Inr (text_body r))) of
             Inr body \<Rightarrow> (Inr (Some body), w1)
           | Inl (RequestException msg) \<Rightarrow>
               (Inr None, logging_error (''Error fetching HTML content from '' @ url @ '': '' @ msg) w1)
           | Inl e \<Rightarrow> (Inl e, w1)))"

text \<open>\<open>create_folder_if_not_exists\<close>: an exception of \<open>os.makedirs\<close> is not caught.\<close>

definition create_folder_if_not_exists :: "string \<Rightarrow> world \<Rightarrow> (exn + unit) \<times> world" where
  "create_folder_if_not_exists folder_path w =
     (if \<not> os_path_exists (fs w) folder_path
      then (case os_makedirs (fs w) folder_path of
              (Some e, f) \<Rightarrow> (Inl e, w\<lparr>fs := f\<rparr>)
            | (None, f) \<Rightarrow> (Inr (), logging_info (''Created folder: '' @ folder_path) (w\<lparr>fs := f\<rparr>)))
      else (Inr (), w))"

text \<open>
  \<open>download_image\<close>. \<open>download_image_try\<close> is the body of the \<open>try\<close> block, giving the
  exception that interrupted it, if any; the two \<open>except\<close> clauses catch a
  \<open>RequestException\<close> and an \<open>IOError\<close>, and each logs an error.
\<close>

definition download_image_try :: "string \<Rightarrow> string \<Rightarrow> world \<Rightarrow> exn option \<times> world" where
  "download_image_try url file_path w =
     (case requests_get url w of
        (Inl e, w1) \<Rightarrow> (Some e, w1)
      | (Inr r, w1) \<Rightarrow>
          (case raise_for_status r of
             Inl e \<Rightarrow> (Some e, w1)
           | Inr _ \<Rightarrow>
               (case write_file (fs w1) file_path (content r) of
                  (Some e, f) \<Rightarrow> (Some e, w1\<lparr>fs := f\<rparr>)
                | (None, f) \<Rightarrow> (None, logging_info (''Image saved at '' @ file_path) (w1\<lparr>fs := f\<rparr>)))))"

definition download_image :: "string \<Rightarrow> string \<Rightarrow> world \<Rightarrow> (exn + unit) \<times> world" where
  "download_image url file_path w =
     (case download_image_try url file_path w of
        (None, w1) \<Rightarrow> (Inr (), w1)
      | (Some (RequestException msg), w1) \<Rightarrow>
          (Inr (), logging_error (''Error fetching image from '' @ url @ '': '' @ msg) w1)
      | (Some (IOError msg), w1) \<Rightarrow>
          (Inr (), logging_error (''Error saving image at '' @ file_path @ '': '' @ msg) w1)
      | (Some e, w1) \<Rightarrow> (Inl e, w1))"

text \<open>
  The parameters of \<open>download_images\<close>. The function reads the mapping only through
  \<open>params.get\<close> at five keys; the record holds these five entries, each absent (\<open>None\<close>)
  or present with a value of the type that \<open>main\<close> stores there.
\<close>

record download_params =
  params_url_base :: "string option"
  params_image_names :: "string list option"
  params_base_folder :: "string option"
  params_folder_name :: "string option"
  params_subfolder_name :: "string option"

text \<open>
  \<open>os.path.join\<close> on the three values read from the mapping: a value that is \<open>None\<close>
  raises \<open>TypeError\<close>.
\<close>

definition folder_path_of :: "download_params \<Rightarrow> exn + string" where
  "folder_path_of params =
     (case (params_base_folder params, params_folder_name params, params_subfolder_name params) of
        (Some a, Some b, Some c) \<Rightarrow> Inr (os_path_join a [b, c])
      | _ \<Rightarrow> Inl TypeError)"

text \<open>The loop of \<open>download_images\<close>: an exception of \<open>download_image\<close> would end it.\<close>

fun download_each :: "string \<Rightarrow> string \<Rightarrow> string list \<Rightarrow> world \<Rightarrow> (exn + unit) \<times> world" where
  "download_each url_base folder_path [] w = (Inr (), w)"
| "download_each url_base folder_path (name # names) w =
     (case download_image (url_base @ ''/'' @ name) (os_path_join folder_path [name]) w of
        (Inl e, w1) \<Rightarrow> (Inl e, w1)
      | (Inr _, w1) \<Rightarrow> download_each url_base folder_path names w1)"

text \<open>
  \<open>download_images\<close>. The folder path is joined before the parameters are checked.
  \<open>all([url_base, image_names, folder_path])\<close> is false when \<open>url_base\<close> is \<open>None\<close> or one
  of the three is empty.
\<close>

definition download_images :: "download_params \<Rightarrow> world \<Rightarrow> (exn + unit) \<times> world" where
  "download_images params w =
     (let url_base = params_url_base params;
          image_names = (case params_image_names params of None \<Rightarrow> [] | Some names \<Rightarrow> names)
      in case folder_path_of params of
           Inl e \<Rightarrow> (Inl e, w)
         | Inr folder_path \<Rightarrow>
             (case url_base of
                None \<Rightarrow> (Inr (), logging_error ''Error: Missing required parameters.'' w)
              | Some u \<Rightarrow>
                  if u = [] \<or> image_names = [] \<or> folder_path = []
                  then (Inr (), logging_error ''Error: Missing required parameters.'' w)
                  else (case create_folder_if_not_exists folder_path w of
                          (Inl e, w1) \<Rightarrow> (Inl e, w1)
                        | (Inr _, w1) \<Rightarrow> download_each u folder_path image_names w1)))"

text \<open>
  The dictionary that \<open>main\<close> builds: \<open>date_time.split()[0]\<close> and \<open>date_time.split()[1]\<close>
  raise \<open>IndexError\<close> when the timestamp has fewer fields.
\<close>

definition params_download_images :: "string \<Rightarrow> string list \<Rightarrow> string \<Rightarrow> exn + download_params" where
  "params_download_images url_base image_names date_time =
     (case split_ws date_time of
        d # t # _ \<Rightarrow>
          Inr \<lparr>params_url_base = Some url_base,
               params_image_names = Some image_names,
               params_base_folder = Some BASE_IMAGE_DIR,
               params_folder_name = Some d,
               params_subfolder_name = Some (replace CHR '':'' CHR ''-'' t)\<rparr>
      | _ \<Rightarrow> Inl IndexError)"

text \<open>
  \<open>main\<close>, with the two lines that \<open>input\<close> reads as arguments. \<open>not html_content\<close> holds
  for \<open>None\<close> and for the empty string, \<open>not image_names\<close> for the empty list.
\<close>

definition listing_url :: "string \<Rightarrow> string" where
  "listing_url d = ''https://sdo.gsfc.nasa.gov/assets/img/browse/'' @ replace CHR ''-'' CHR ''/'' d"

definition greeting :: "world \<Rightarrow> world" where
  "greeting w =
     print (''Enter the date and time in the format YYYY-MM-DD HH:MM (e.g., 2024-08-02 01:10): '')
       (print (''Enter the image types separated by a space (e.g., HMIIC HMIIF): '')
         (print (''There is no need to manually create folders for storing images; the script handles that automatically.'' @ [CHR 0x0A])
           (print (''This script allows you to efficiently download various types of solar images from the SDO database.'')
             (print ([CHR 0x0A] @ ''Welcome to the SDO Image Downloader.'' @ [CHR 0x0A]) w))))"

definition main ::
  "(string \<Rightarrow> string option) \<Rightarrow> string \<Rightarrow> string \<Rightarrow> world \<Rightarrow> (exn + unit) \<times> world" where
  "main find_pre types_line date_time w0 =
     (let w = greeting w0; image_types = split_ws types_line
      in case split_ws date_time of
           [] \<Rightarrow> (Inl IndexError, w)
         | d # _ \<Rightarrow>
             (let url_base = listing_url d
              in case fetch_html_content url_base w of
                   (Inl e, w1) \<Rightarrow> (Inl e, w1)
                 | (Inr None, w1) \<Rightarrow> (Inr (), w1)
                 | (Inr (Some html_content), w1) \<Rightarrow>
                     if html_content = [] then (Inr (), w1)
                     else (case extract_image_names find_pre html_content image_types date_time of
                             Inl e \<Rightarrow> (Inl e, w1)
                           | Inr image_names \<Rightarrow>
                               if image_names = [] then (Inr (), logging_info ''No images found'' w1)
                               else (case params_download_images url_base image_names date_time of
                                       Inl e \<Rightarrow> (Inl e, w1)
                                     | Inr params \<Rightarrow>
                                         (case download_images params w1 of
                                            (Inl e, w2) \<Rightarrow> (Inl e, w2)
                                          | (Inr _, w2) \<Rightarrow>
                                              (Inr (), logging_info ''Execution completed'' w2))))))"

section \<open>Notions of the specification\<close>

text \<open>
  The lines of a preformatted block that pass both filters, in document order, and the
  first column of a line, \<open>line.split()[0]\<close>, for a line that has one.
\<close>

definition matching_lines :: "string list \<Rightarrow> string \<Rightarrow> string \<Rightarrow> string list" where
  "matching_lines type_images date_time pre =
     filter (selected type_images date_time) (split_sep CHR 0x0A pre)"

definition first_column :: "string \<Rightarrow> string" where
  "first_column line = hd (split_ws line)"





text \<open>
  A timestamp of the form \<open>YYYY-MM-DD HH:MM\<close>: a digit where the format has a letter, and
  the character of the format elsewhere.
\<close>

definition is_digit :: "char \<Rightarrow> bool" where
  "is_digit c = (c \<in> set ''0123456789'')"

definition timestamp_form :: "string \<Rightarrow> bool" where
  "timestamp_form s =
     list_all2 (\<lambda>p c. if p \<in> set ''YMDH'' then is_digit c else c = p) ''YYYY-MM-DD HH:MM'' s"

text \<open>
  The folder of the images of a timestamp: the base directory, the date part of the
  timestamp, and the time part with each colon replaced by a dash.
\<close>

definition image_folder :: "string \<Rightarrow> string" where
  "image_folder date_time =
     ''images/imagesSDO/'' @ take 10 date_time @ ''/'' @
     replace CHR '':'' CHR ''-'' (drop 11 date_time)"

text \<open>
  A world for the examples. The listing of 2 August 2024 is served, with three images of
  type \<open>HMIIC\<close> at 01:10; the request for the first image times out, the second image is
  served, and the file of the third cannot be created. Every other URL answers 404. The
  directories that exist at the start are the parameter.
\<close>

definition example_url :: string where
  "example_url = ''https://sdo.gsfc.nasa.gov/assets/img/browse/2024/08/02''"

definition example_folder :: string where
  "example_folder = ''images/imagesSDO/2024-08-02/01-10''"

definition example_pre :: string where
  "example_pre =
     ''a_HMIIC.jpg 2024-08-02 01:10 1K'' @ [CHR 0x0A] @
     ''b_HMIIC.jpg 2024-08-02 01:10 2K'' @ [CHR 0x0A] @
     ''c_HMIIC.jpg 2024-08-02 01:10 3K'' @ [CHR 0x0A]"

definition example_html :: string where
  "example_html = ''<html><body><pre>'' @ example_pre @ ''</pre></body></html>''"

definition example_find_pre :: "string \<Rightarrow> string option" where
  "example_find_pre html = (if html = example_html then Some example_pre else None)"

definition example_world :: "string set \<Rightarrow> world" where
  "example_world ds =
     \<lparr>responses = (\<lambda>n url.
        if url = example_url
        then Responds \<lparr>status_code = 200, text_body = example_html, content = [], http_error = []\<rparr>
        else if url = example_url @ ''/a_HMIIC.jpg''
        then Raises (RequestException ''Connection timed out'')
        else if url = example_url @ ''/b_HMIIC.jpg'' \<or> url = example_url @ ''/c_HMIIC.jpg''
        then Responds \<lparr>status_code = 200, text_body = [], content = ''0123456789'', http_error = []\<rparr>
        else Responds \<lparr>status_code = 404, text_body = [], content = [],
                        http_error = ''404 Client Error: Not Found''\<rparr>),
      gets = [],
      fs = \<lparr>dirs = ds, files = Map.empty,
            faults = [example_folder @ ''/c_HMIIC.jpg'' \<mapsto> CreateFails (IOError ''Permission denied'')]\<rparr>,
      logs = [],
      stdout = []\<rparr>"

text \<open>
  A second world: the listing of 2 August 2024 has one line, whose filename starts with
  the path separator, and the image is served. The root directory exists.
\<close>

definition absolute_pre :: string where
  "absolute_pre = ''/x_HMIIC.jpg 2024-08-02 01:10 1K''"

definition absolute_html :: string where
  "absolute_html = ''<html><body><pre>'' @ absolute_pre @ ''</pre></body></html>''"

definition absolute_find_pre :: "string \<Rightarrow> string option" where
  "absolute_find_pre html = (if html = absolute_html then Some absolute_pre else None)"

definition absolute_world :: world where
  "absolute_world =
     \<lparr>responses = (\<lambda>n url.
        if url = example_url
        then Responds \<lparr>status_code = 200, text_body = absolute_html, content = [], http_error = []\<rparr>
        else if url = example_url @ ''//x_HMIIC.jpg''
        then Responds \<lparr>status_code = 200, text_body = [], content = ''0123456789'', http_error = []\<rparr>
        else Responds \<lparr>status_code = 404, text_body = [], content = [],
                        http_error = ''404 Client Error: Not Found''\<rparr>),
      gets = [],
      fs = \<lparr>dirs = {''/''}, files = Map.empty, faults = Map.empty\<rparr>,
      logs = [],
      stdout = []\<rparr>"

section \<open>Facts about the string operations\<close>

lemma split_from_not_Nil: "split_from sep cur s \<noteq> []"
  by (induction s arbitrary: cur) auto

lemma split_sep_not_Nil: "split_sep sep s \<noteq> []"
  by (simp add: split_sep_def split_from_not_Nil)

lemma words_from_Nil_iff:
  "words_from cur s = [] \<longleftrightarrow> cur = [] \<and> (\<forall>c\<in>set s. isspace c)"
  by (induction s arbitrary: cur) auto

lemma split_ws_Nil_iff: "split_ws s = [] \<longleftrightarrow> (\<forall>c\<in>set s. isspace c)"
  by (simp add: split_ws_def words_from_Nil_iff)

lemma starts_with_iff: "starts_with p s \<longleftrightarrow> (\<exists>r. s = p @ r)"
  by (induction p s rule: starts_with.induct) auto

lemma str_in_iff: "str_in p s \<longleftrightarrow> (\<exists>a b. s = a @ p @ b)"
proof (induction s)
  case Nil
  then show ?case by auto
next
  case (Cons c cs)
  show ?case
  proof
    assume "str_in p (c # cs)"
    then consider "starts_with p (c # cs)" | "str_in p cs" by auto
    then show "\<exists>a b. c # cs = a @ p @ b"
    proof cases
      case 1
      then obtain r where "c # cs = p @ r" by (auto simp: starts_with_iff)
      then have "c # cs = [] @ p @ r" by simp
      then show ?thesis by blast
    next
      case 2
      then obtain a b where "cs = a @ p @ b" using Cons.IH by auto
      then have "c # cs = (c # a) @ p @ b" by simp
      then show ?thesis by blast
    qed
  next
    assume "\<exists>a b. c # cs = a @ p @ b"
    then obtain a b where ab: "c # cs = a @ p @ b" by auto
    show "str_in p (c # cs)"
    proof (cases a)
      case Nil
      then have "starts_with p (c # cs)" using ab by (auto simp: starts_with_iff)
      then show ?thesis by simp
    next
      case (Cons x xs)
      then have "cs = xs @ p @ b" using ab by simp
      then have "str_in p cs" using Cons.IH by blast
      then show ?thesis by simp
    qed
  qed
qed

lemma str_in_set: "str_in p s \<Longrightarrow> set p \<subseteq> set s"
  by (auto simp: str_in_iff)

section \<open>The extractor\<close>

lemma image_names_of_ok:
  "\<forall>line\<in>set lines. selected tys dt line \<longrightarrow> split_ws line \<noteq> [] \<Longrightarrow>
   image_names_of tys dt lines =
     Inr (map (\<lambda>l. hd (split_ws l)) (filter (selected tys dt) lines))"
  by (induction lines) (auto split: list.splits)

lemma image_names_of_Inl:
  "image_names_of tys dt lines = Inl e \<Longrightarrow>
   e = IndexError \<and> (\<exists>line\<in>set lines. selected tys dt line \<and> split_ws line = [])"
  by (induction lines) (auto split: list.splits if_splits sum.splits)

lemma extract_image_names_nonblank_lines:
  assumes "find_pre html = Some pre"
      and "\<forall>line\<in>set (matching_lines tys dt pre). \<exists>c\<in>set line. \<not> isspace c"
  shows "extract_image_names find_pre html tys dt =
           Inr (map first_column (matching_lines tys dt pre))"
proof -
  have "\<forall>line\<in>set (split_sep CHR 0x0A pre). selected tys dt line \<longrightarrow> split_ws line \<noteq> []"
    using assms(2) by (auto simp: matching_lines_def split_ws_Nil_iff)
  then show ?thesis
    using assms(1)
    by (simp add: extract_image_names_def image_names_of_ok matching_lines_def first_column_def)
qed

text \<open>
  Claim C1. Let the requested timestamp have a character that is not whitespace, as
  every timestamp of the form \<open>YYYY-MM-DD HH:MM\<close> has. When the first preformatted block
  of the listing has \<open>N\<close> lines that contain the timestamp and whose type token is one of
  the requested ones, \<open>extract_image_names\<close> returns the first columns of exactly these
  \<open>N\<close> lines, in document order, and nothing else.
\<close>

theorem extract_image_names_exact:
  assumes "find_pre html = Some pre"
      and "\<exists>c\<in>set dt. \<not> isspace c"
  shows "extract_image_names find_pre html tys dt =
           Inr (map first_column (matching_lines tys dt pre))
         \<and> length (map first_column (matching_lines tys dt pre))
             = length (matching_lines tys dt pre)"
proof -
  have "\<exists>c\<in>set line. \<not> isspace c" if "line \<in> set (matching_lines tys dt pre)" for line
  proof -
    have "str_in dt line"
      using that by (simp add: matching_lines_def selected_def)
    then show ?thesis
      using assms(2) str_in_set [of dt line] by blast
  qed
  then show ?thesis
    using extract_image_names_nonblank_lines
            [where find_pre = find_pre and html = html and pre = pre and tys = tys and dt = dt]
          assms(1)
    by simp
qed

theorem extract_image_names_exact_witness:
  "extract_image_names example_find_pre example_html [''HMIIC''] ''2024-08-02 01:10''
   = Inr [''a_HMIIC.jpg'', ''b_HMIIC.jpg'', ''c_HMIIC.jpg'']
   \<and> extract_image_names example_find_pre example_html [''HMIIF''] ''2024-08-02 01:10''
   = Inr []"
proof -
  have found: "example_find_pre example_html = Some example_pre"
    by (simp add: example_find_pre_def)
  have nonblank: "\<exists>c\<in>set ''2024-08-02 01:10''. \<not> isspace c"
    by (simp add: isspace_def)
  have ml: "matching_lines [''HMIIC''] ''2024-08-02 01:10'' example_pre =
              [''a_HMIIC.jpg 2024-08-02 01:10 1K'', ''b_HMIIC.jpg 2024-08-02 01:10 2K'',
               ''c_HMIIC.jpg 2024-08-02 01:10 3K'']"
    by (simp add: matching_lines_def example_pre_def split_sep_def selected_def type_token_def)
  have none: "matching_lines [''HMIIF''] ''2024-08-02 01:10'' example_pre = []"
    by (simp add: matching_lines_def example_pre_def split_sep_def selected_def type_token_def)
  show ?thesis
    using extract_image_names_exact
            [where find_pre = example_find_pre and html = example_html and pre = example_pre
               and dt = "''2024-08-02 01:10''" and tys = "[''HMIIC'']"]
          extract_image_names_exact
            [where find_pre = example_find_pre and html = example_html and pre = example_pre
               and dt = "''2024-08-02 01:10''" and tys = "[''HMIIF'']"]
          found nonblank
    unfolding ml none by (simp add: first_column_def split_ws_def isspace_def)
qed

text \<open>
  Claim C2, as amended. For the type tokens \<open>{HMIIC}\<close> and the timestamp
  \<open>2024-08-02 01:10\<close>, the line \<open>20240802_011000_1024_HMIIC.jpg 2024-08-02 01:10 extra\<close>,
  whose type token is the last underscore-delimited segment before the first dot, gives
  the filename \<open>20240802_011000_1024_HMIIC.jpg\<close>, and the same line with \<open>HMIIF\<close> is
  excluded. The lines \<open>HMIIC_2024-08-02 01:10.jpg extra\<close> and
  \<open>HMIIF_2024-08-02 01:10.jpg extra\<close> are both excluded.
\<close>

theorem extract_image_names_example:
  "extract_image_names (\<lambda>h. Some ''20240802_011000_1024_HMIIC.jpg 2024-08-02 01:10 extra'')
     html [''HMIIC''] ''2024-08-02 01:10'' = Inr [''20240802_011000_1024_HMIIC.jpg'']
   \<and> extract_image_names (\<lambda>h. Some ''20240802_011000_1024_HMIIF.jpg 2024-08-02 01:10 extra'')
     html [''HMIIC''] ''2024-08-02 01:10'' = Inr []
   \<and> extract_image_names (\<lambda>h. Some ''HMIIC_2024-08-02 01:10.jpg extra'')
     html [''HMIIC''] ''2024-08-02 01:10'' = Inr []
   \<and> extract_image_names (\<lambda>h. Some ''HMIIF_2024-08-02 01:10.jpg extra'')
     html [''HMIIC''] ''2024-08-02 01:10'' = Inr []"
  by (simp add: extract_image_names_def split_sep_def split_ws_def selected_def
        type_token_def isspace_def)

text \<open>
  Claim C2 as stated fails: the type token of the line \<open>HMIIC_2024-08-02 01:10.jpg extra\<close>
  is \<open>2024-08-02 01:10\<close>, not \<open>HMIIC\<close>, so the line is not selected and no filename is
  returned for it.
\<close>

theorem extract_image_names_example_counterexample:
  "type_token ''HMIIC_2024-08-02 01:10.jpg extra'' = ''2024-08-02 01:10''
   \<and> extract_image_names (\<lambda>h. Some ''HMIIC_2024-08-02 01:10.jpg extra'')
         ''<pre>HMIIC_2024-08-02 01:10.jpg extra</pre>'' [''HMIIC''] ''2024-08-02 01:10''
     = Inr []"
  by (simp add: extract_image_names_def split_sep_def split_ws_def selected_def
        type_token_def isspace_def)

text \<open>
  Claim C5. \<open>extract_image_names\<close> raises the fault of the missing preformatted block,
  the \<open>AttributeError\<close> of \<open>get_text\<close> on \<open>None\<close>, exactly for the HTML contents that have
  no \<open>pre\<close> element: without one it returns no value, and with one this fault is never
  raised.
\<close>

theorem extract_image_names_AttributeError_iff:
  "extract_image_names find_pre html tys dt = Inl AttributeError \<longleftrightarrow> find_pre html = None"
  using image_names_of_Inl [of tys dt _ AttributeError]
  by (auto simp: extract_image_names_def split: option.splits)

theorem extract_image_names_AttributeError_witness:
  "extract_image_names (\<lambda>h. if h = ''<pre>x</pre>'' then Some ''x'' else None)
     ''<p>x</p>'' [''HMIIC''] ''2024-08-02 01:10'' = Inl AttributeError
   \<and> extract_image_names (\<lambda>h. if h = ''<pre>x</pre>'' then Some ''x'' else None)
       ''<pre>x</pre>'' [''HMIIC''] ''2024-08-02 01:10'' \<noteq> Inl AttributeError"
  using extract_image_names_AttributeError_iff
          [of "\<lambda>h. if h = ''<pre>x</pre>'' then Some ''x'' else None" "''<p>x</p>''"
              "[''HMIIC'']" "''2024-08-02 01:10''"]
        extract_image_names_AttributeError_iff
          [of "\<lambda>h. if h = ''<pre>x</pre>'' then Some ''x'' else None" "''<pre>x</pre>''"
              "[''HMIIC'']" "''2024-08-02 01:10''"]
  by simp

text \<open>
  Claim C10. When the timestamp has a character that is not whitespace, every line that
  contains the timestamp has a whitespace-delimited field, so \<open>line.split()[0]\<close> is in
  bounds for every selected line and \<open>extract_image_names\<close> never raises \<open>IndexError\<close>,
  whatever the HTML content.
\<close>

theorem first_column_in_bounds:
  assumes "\<exists>c\<in>set dt. \<not> isspace c"
  shows "extract_image_names find_pre html tys dt \<noteq> Inl IndexError
         \<and> (\<forall>line. str_in dt line \<longrightarrow> split_ws line \<noteq> [])"
proof -
  have lines: "split_ws line \<noteq> []" if "str_in dt line" for line
    using that assms str_in_set [of dt line] by (auto simp: split_ws_Nil_iff)
  have "image_names_of tys dt ls \<noteq> Inl IndexError" for ls
  proof
    assume "image_names_of tys dt ls = Inl IndexError"
    then obtain line where "selected tys dt line" "split_ws line = []"
      using image_names_of_Inl by blast
    then show False using lines by (simp add: selected_def)
  qed
  then show ?thesis using lines
    by (auto simp: extract_image_names_def split: option.splits)
qed

theorem first_column_in_bounds_witness:
  "extract_image_names (\<lambda>h. Some ''a_HMIIC.jpg 2024-08-02 01:10 1K'') []
     [''HMIIC''] ''2024-08-02 01:10'' \<noteq> Inl IndexError
   \<and> split_ws ''a_HMIIC.jpg 2024-08-02 01:10 1K'' \<noteq> []"
proof -
  have nonblank: "\<exists>c\<in>set ''2024-08-02 01:10''. \<not> isspace c"
    by (simp add: isspace_def)
  have inl: "str_in ''2024-08-02 01:10'' ''a_HMIIC.jpg 2024-08-02 01:10 1K''"
    by simp
  show ?thesis
    using first_column_in_bounds
            [OF nonblank, of "\<lambda>h. Some ''a_HMIIC.jpg 2024-08-02 01:10 1K''" "[]" "[''HMIIC'']"]
          inl
    by blast
qed

section \<open>The listing fetcher\<close>

text \<open>
  Claim C3. The statuses that \<open>raise_for_status\<close> rejects are 400 to 599. A GET that is
  answered with any other status makes \<open>fetch_html_content\<close> return the text of the
  response, and nothing is logged. A GET that is answered with a status from 400 to 599,
  and a GET that fails with a \<open>RequestException\<close>, make it return \<open>None\<close>, and the log
  grows by exactly one record, of level \<open>ERROR\<close>. In all three cases the result is a
  value, not an exception, and one request has been made.
\<close>

theorem fetch_html_content_result:
  assumes "run = fetch_html_content url w"
  shows "(responses w (length (gets w)) url = Responds r \<and>
          \<not> (400 \<le> status_code r \<and> status_code r < 600) \<longrightarrow>
            fst run = Inr (Some (text_body r)) \<and> logs (snd run) = logs w \<and>
            gets (snd run) = gets w @ [url])
       \<and> (responses w (length (gets w)) url = Responds r \<and>
          400 \<le> status_code r \<and> status_code r < 600 \<longrightarrow>
            fst run = Inr None \<and> gets (snd run) = gets w @ [url] \<and>
            logs (snd run) =
              logs w @ [(ERROR, ''Error fetching HTML content from '' @ url @ '': '' @ http_error r)])
       \<and> (responses w (length (gets w)) url = Raises (RequestException msg) \<longrightarrow>
            fst run = Inr None \<and> gets (snd run) = gets w @ [url] \<and>
            logs (snd run) =
              logs w @ [(ERROR, ''Error fetching HTML content from '' @ url @ '': '' @ msg)])"
  using assms
  by (simp add: fetch_html_content_def requests_get_def raise_for_status_def logging_error_def)

theorem fetch_html_content_result_witness:
  "fst (fetch_html_content example_url (example_world {})) = Inr (Some example_html)
   \<and> logs (snd (fetch_html_content example_url (example_world {}))) = []
   \<and> fst (fetch_html_content ''https://sdo.gsfc.nasa.gov/assets/img/browse/2024/08/03''
            (example_world {})) = Inr None
   \<and> logs (snd (fetch_html_content ''https://sdo.gsfc.nasa.gov/assets/img/browse/2024/08/03''
            (example_world {})))
       = [(ERROR, ''Error fetching HTML content from https://sdo.gsfc.nasa.gov/assets/img/browse/2024/08/03: 404 Client Error: Not Found'')]
   \<and> fst (fetch_html_content (example_url @ ''/a_HMIIC.jpg'') (example_world {})) = Inr None
   \<and> logs (snd (fetch_html_content (example_url @ ''/a_HMIIC.jpg'') (example_world {})))
       = [(ERROR, ''Error fetching HTML content from '' @ (example_url @ ''/a_HMIIC.jpg'') @
                  '': Connection timed out'')]"
proof -
  have w: "gets (example_world {}) = []" "logs (example_world {}) = []"
    by (simp_all add: example_world_def)
  have r1: "responses (example_world {}) 0 example_url
              = Responds \<lparr>status_code = 200, text_body = example_html, content = [], http_error = []\<rparr>"
    by (simp add: example_world_def)
  have r2: "responses (example_world {}) 0 ''https://sdo.gsfc.nasa.gov/assets/img/browse/2024/08/03''
              = Responds \<lparr>status_code = 404, text_body = [], content = [],
                          http_error = ''404 Client Error: Not Found''\<rparr>"
    by (simp add: example_world_def example_url_def)
  have r3: "responses (example_world {}) 0 (example_url @ ''/a_HMIIC.jpg'')
              = Raises (RequestException ''Connection timed out'')"
    by (simp add: example_world_def example_url_def)
  show ?thesis
    using fetch_html_content_result
            [where w = "example_world {}" and url = example_url
               and r = "\<lparr>status_code = 200, text_body = example_html, content = [], http_error = []\<rparr>",
             OF refl]
          fetch_html_content_result
            [where w = "example_world {}"
               and url = "''https://sdo.gsfc.nasa.gov/assets/img/browse/2024/08/03''"
               and r = "\<lparr>status_code = 404, text_body = [], content = [],
                         http_error = ''404 Client Error: Not Found''\<rparr>",
             OF refl]
          fetch_html_content_result
            [where w = "example_world {}" and url = "example_url @ ''/a_HMIIC.jpg''"
               and msg = "''Connection timed out''",
             OF refl]
    by (simp add: w r1 r2 r3)
qed

section \<open>The folder organizer\<close>

lemma os_mkdir_exists: "os_mkdir f path = Inr f' \<Longrightarrow> os_path_exists f' path"
  by (auto simp: os_mkdir_def os_path_exists_def split: option.splits fault.splits if_splits)

lemma os_makedirs_exists: "os_makedirs f path = (None, f') \<Longrightarrow> os_path_exists f' path"
  by (auto simp: os_makedirs_def split: sum.splits prod.splits option.splits dest: os_mkdir_exists)

text \<open>
  Claim C6. After a call of \<open>create_folder_if_not_exists\<close> that returned, a second call
  with the same path returns as well, the path exists, and the second call changes
  nothing: the file system, the log and the rest of the world are as the first call left
  them.
\<close>

theorem create_folder_idempotent:
  assumes "create_folder_if_not_exists folder_path w = (Inr (), w1)"
  shows "create_folder_if_not_exists folder_path w1 = (Inr (), w1) \<and> os_path_exists (fs w1) folder_path"
proof -
  have "os_path_exists (fs w1) folder_path"
    using assms
    by (auto simp: create_folder_if_not_exists_def logging_info_def
             split: if_splits prod.splits option.splits dest: os_makedirs_exists)
  then show ?thesis by (simp add: create_folder_if_not_exists_def)
qed

theorem create_folder_idempotent_witness:
  "create_folder_if_not_exists example_folder
     (snd (create_folder_if_not_exists example_folder (example_world {})))
   = (Inr (), snd (create_folder_if_not_exists example_folder (example_world {})))
   \<and> os_path_exists (fs (snd (create_folder_if_not_exists example_folder (example_world {}))))
        example_folder"
proof -
  have "fst (create_folder_if_not_exists example_folder (example_world {})) = Inr ()"
    by code_simp
  then have first:
    "create_folder_if_not_exists example_folder (example_world {})
       = (Inr (), snd (create_folder_if_not_exists example_folder (example_world {})))"
    by (simp add: prod_eq_iff)
  show ?thesis
    using create_folder_idempotent [OF first] .
qed

section \<open>The downloader\<close>

text \<open>
  Claim C4 fails on the code. With the entry \<open>folder_name\<close> missing, \<open>os.path.join\<close>
  raises \<open>TypeError\<close> before the parameters are checked: \<open>download_images\<close> ends with
  this exception and leaves the world as it was, so no error is logged. A missing
  \<open>url_base\<close>, which the check does reach, is logged as the claim says.
\<close>

theorem download_images_missing_folder_name:
  "download_images
     \<lparr>params_url_base = Some ''https://sdo.gsfc.nasa.gov/assets/img/browse/2024/08/02'',
      params_image_names = Some [''20240802_011000_1024_HMIIC.jpg''],
      params_base_folder = Some BASE_IMAGE_DIR,
      params_folder_name = None,
      params_subfolder_name = Some ''01-10''\<rparr> w
   = (Inl TypeError, w)"
  by (simp add: download_images_def folder_path_of_def)

lemma download_images_missing_url_base:
  "download_images
     \<lparr>params_url_base = None,
      params_image_names = Some [''20240802_011000_1024_HMIIC.jpg''],
      params_base_folder = Some BASE_IMAGE_DIR,
      params_folder_name = Some ''2024-08-02'',
      params_subfolder_name = Some ''01-10''\<rparr> w
   = (Inr (), logging_error ''Error: Missing required parameters.'' w)"
  by (simp add: download_images_def folder_path_of_def)





lemma write_file_files:
  "write_file f path data = (res, f') \<Longrightarrow> q \<noteq> path \<Longrightarrow> files f' q = files f q"
  by (auto simp: write_file_def split: if_splits option.splits fault.splits)













text \<open>
  Outside these two kinds of failure: when the image is served and the file path holds a
  NUL character, \<open>open\<close> raises a \<open>ValueError\<close>, which no \<open>except\<close> clause of
  \<open>download_image\<close> names. The exception leaves \<open>download_image\<close> and ends the loop at
  that name; nothing is logged for it.
\<close>

lemma download_each_NUL_path:
  assumes "responses w (length (gets w)) (url_base @ ''/'' @ name) = Responds r"
      and "\<not> (400 \<le> status_code r \<and> status_code r < 600)"
      and "CHR 0x00 \<in> set (os_path_join folder_path [name])"
  shows "download_each url_base folder_path (name # names) w
           = (Inl (ValueError ''embedded null byte''), w\<lparr>gets := gets w @ [url_base @ ''/'' @ name]\<rparr>)"
proof -
  have ok: "raise_for_status r = Inr ()"
    using assms(2) by (simp add: raise_for_status_def)
  have refused: "write_file f (os_path_join folder_path [name]) data
                   = (Some (ValueError ''embedded null byte''), f)" for f data
    using assms(3) by (simp add: write_file_def del: os_path_join.simps)
  have "download_image_try (url_base @ ''/'' @ name) (os_path_join folder_path [name]) w
          = (Some (ValueError ''embedded null byte''), w\<lparr>gets := gets w @ [url_base @ ''/'' @ name]\<rparr>)"
    using assms(1) ok refused
    by (simp add: download_image_try_def requests_get_def del: os_path_join.simps)
  then have "download_image (url_base @ ''/'' @ name) (os_path_join folder_path [name]) w
          = (Inl (ValueError ''embedded null byte''), w\<lparr>gets := gets w @ [url_base @ ''/'' @ name]\<rparr>)"
    by (simp add: download_image_def del: os_path_join.simps)
  then show ?thesis
    by (simp del: os_path_join.simps)
qed

section \<open>The main program\<close>

lemma greeting_frame:
  "responses (greeting w) = responses w" "gets (greeting w) = gets w" "fs (greeting w) = fs w"
  "logs (greeting w) = logs w"
  by (simp_all add: greeting_def print_def)

text \<open>
  Claim C8. Let the timestamp have a date field, so that \<open>main\<close> reaches the fetch. If
  the listing fetch fails, by a \<open>RequestException\<close> or by a status from 400 to 599,
  \<open>main\<close> returns with one error logged; if the listing is fetched and the extractor
  returns the empty list, \<open>main\<close> returns with the record \<open>No images found\<close> logged. In
  both cases the only request made is the one for the listing and the file system is
  untouched: no download is attempted and nothing of the download stage has happened.
\<close>

theorem main_stops_before_download:
  assumes "split_ws date_time = d # rest"
      and "run = main find_pre types_line date_time w"
  shows "((responses w (length (gets w)) (listing_url d) = Raises (RequestException msg) \<or>
           (responses w (length (gets w)) (listing_url d) = Responds r \<and>
            400 \<le> status_code r \<and> status_code r < 600 \<and> msg = http_error r)) \<longrightarrow>
          fst run = Inr () \<and> gets (snd run) = gets w @ [listing_url d] \<and> fs (snd run) = fs w \<and>
          logs (snd run) =
            logs w @ [(ERROR, ''Error fetching HTML content from '' @ listing_url d @ '': '' @ msg)])
       \<and> (responses w (length (gets w)) (listing_url d) = Responds r \<and>
           \<not> (400 \<le> status_code r \<and> status_code r < 600) \<and> text_body r \<noteq> [] \<and>
           extract_image_names find_pre (text_body r) (split_ws types_line) date_time = Inr [] \<longrightarrow>
          fst run = Inr () \<and> gets (snd run) = gets w @ [listing_url d] \<and> fs (snd run) = fs w \<and>
          logs (snd run) = logs w @ [(INFO, ''No images found'')])"
  using assms
  by (auto simp: main_def fetch_html_content_def requests_get_def raise_for_status_def
        greeting_frame logging_error_def logging_info_def Let_def)

theorem main_stops_before_download_witness:
  "fst (main example_find_pre ''HMIIC'' ''2024-08-03 01:10'' (example_world {})) = Inr ()
   \<and> gets (snd (main example_find_pre ''HMIIC'' ''2024-08-03 01:10'' (example_world {})))
       = [''https://sdo.gsfc.nasa.gov/assets/img/browse/2024/08/03'']
   \<and> fs (snd (main example_find_pre ''HMIIC'' ''2024-08-03 01:10'' (example_world {})))
       = fs (example_world {})
   \<and> logs (snd (main example_find_pre ''HMIIC'' ''2024-08-03 01:10'' (example_world {})))
       = [(ERROR, ''Error fetching HTML content from https://sdo.gsfc.nasa.gov/assets/img/browse/2024/08/03: 404 Client Error: Not Found'')]
   \<and> fst (main example_find_pre ''AIA'' ''2024-08-02 01:10'' (example_world {})) = Inr ()
   \<and> gets (snd (main example_find_pre ''AIA'' ''2024-08-02 01:10'' (example_world {})))
       = [example_url]
   \<and> fs (snd (main example_find_pre ''AIA'' ''2024-08-02 01:10'' (example_world {})))
       = fs (example_world {})
   \<and> logs (snd (main example_find_pre ''AIA'' ''2024-08-02 01:10'' (example_world {})))
       = [(INFO, ''No images found'')]"
proof -
  have sp3: "split_ws ''2024-08-03 01:10'' = ''2024-08-03'' # [''01:10'']"
    by (simp add: split_ws_def isspace_def)
  have sp2: "split_ws ''2024-08-02 01:10'' = ''2024-08-02'' # [''01:10'']"
    by (simp add: split_ws_def isspace_def)
  have url3: "listing_url ''2024-08-03'' = ''https://sdo.gsfc.nasa.gov/assets/img/browse/2024/08/03''"
    by (simp add: listing_url_def replace_def)
  have url2: "listing_url ''2024-08-02'' = example_url"
    by (simp add: listing_url_def replace_def example_url_def)
  have w: "gets (example_world {}) = []" "logs (example_world {}) = []"
    by (simp_all add: example_world_def)
  have r3: "responses (example_world {}) 0 ''https://sdo.gsfc.nasa.gov/assets/img/browse/2024/08/03''
              = Responds \<lparr>status_code = 404, text_body = [], content = [],
                          http_error = ''404 Client Error: Not Found''\<rparr>"
    by (simp add: example_world_def example_url_def)
  have r2: "responses (example_world {}) 0 example_url
              = Responds \<lparr>status_code = 200, text_body = example_html, content = [], http_error = []\<rparr>"
    by (simp add: example_world_def)
  have none: "extract_image_names example_find_pre example_html (split_ws ''AIA'') ''2024-08-02 01:10'' = Inr []"
    by (simp add: extract_image_names_def example_find_pre_def example_pre_def split_sep_def
          split_ws_def selected_def type_token_def isspace_def)
  have nonempty: "example_html \<noteq> []"
    by (simp add: example_html_def)
  show ?thesis
    using main_stops_before_download [where find_pre = example_find_pre and types_line = "''HMIIC''"
                    and w = "example_world {}" and msg = "''404 Client Error: Not Found''"
                    and r = "\<lparr>status_code = 404, text_body = [], content = [],
                              http_error = ''404 Client Error: Not Found''\<rparr>",
                  OF sp3 refl]
          main_stops_before_download [where find_pre = example_find_pre and types_line = "''AIA''"
                    and w = "example_world {}" and msg = "[]"
                    and r = "\<lparr>status_code = 200, text_body = example_html, content = [],
                              http_error = []\<rparr>",
                  OF sp2 refl]
    by (simp add: url3 url2 w r3 r2 none nonempty)
qed

text \<open>
  The fault of a missing preformatted block is not handled by \<open>main\<close> either: it ends
  the program.
\<close>

lemma main_propagates_AttributeError:
  assumes "split_ws date_time = d # rest"
      and "responses w (length (gets w)) (listing_url d) = Responds r"
      and "\<not> (400 \<le> status_code r \<and> status_code r < 600)"
      and "text_body r \<noteq> []"
      and "find_pre (text_body r) = None"
  shows "fst (main find_pre types_line date_time w) = Inl AttributeError"
  using assms
  by (simp add: main_def fetch_html_content_def requests_get_def raise_for_status_def
        greeting_frame extract_image_names_def Let_def)

section \<open>The destination of the files\<close>

lemma is_digit_facts:
  "is_digit c \<Longrightarrow> \<not> isspace c \<and> c \<noteq> CHR ''/'' \<and> c \<noteq> CHR '':''"
  by (auto simp: is_digit_def isspace_def)

lemma isspace_format_chars:
  "\<not> isspace CHR ''-''" "\<not> isspace CHR '':''" "isspace CHR '' ''"
  by (simp_all add: isspace_def)

lemma timestamp_form_split:
  assumes "timestamp_form dt"
  shows "split_ws dt = [take 10 dt, drop 11 dt]"
    and "\<not> starts_with ''/'' (take 10 dt)"
    and "\<not> starts_with ''/'' (replace CHR '':'' CHR ''-'' (drop 11 dt))"
    and "last (take 10 dt) \<noteq> CHR ''/''"
    and "last (replace CHR '':'' CHR ''-'' (drop 11 dt)) \<noteq> CHR ''/''"
    and "replace CHR '':'' CHR ''-'' (drop 11 dt) \<noteq> []"
    and "take 10 dt \<noteq> []"
  using assms
  by (auto simp: timestamp_form_def list_all2_Cons1 split_ws_def replace_def isspace_format_chars
        dest!: is_digit_facts)

lemma timestamp_form_params:
  assumes "timestamp_form dt"
  shows "\<exists>params. params_download_images u names dt = Inr params \<and>
           params_url_base params = Some u \<and> params_image_names params = Some names \<and>
           folder_path_of params =
             Inr (''images/imagesSDO/'' @ take 10 dt @ ''/'' @ replace CHR '':'' CHR ''-'' (drop 11 dt))"
  using timestamp_form_split [OF assms]
  by (simp add: params_download_images_def folder_path_of_def BASE_IMAGE_DIR_def)

lemma os_mkdir_files: "os_mkdir f p = Inr f' \<Longrightarrow> files f' = files f"
  by (auto simp: os_mkdir_def split: if_splits option.splits fault.splits)

lemma mkdir_each_files: "files (snd (mkdir_each f ds)) = files f"
  by (induction ds arbitrary: f) (auto split: sum.splits dest: os_mkdir_files)

lemma os_makedirs_files: "files (snd (os_makedirs f p)) = files f"
  using mkdir_each_files [of f "rev (ancestors p)"]
  by (auto simp: os_makedirs_def split: prod.splits option.splits sum.splits dest: os_mkdir_files)

lemma create_folder_files:
  "files (fs (snd (create_folder_if_not_exists p w))) = files (fs w)"
  using os_makedirs_files [of "fs w" p]
  by (auto simp: create_folder_if_not_exists_def logging_info_def split: prod.splits option.splits)

lemma download_image_files:
  assumes "q \<noteq> path"
  shows "files (fs (snd (download_image url path w))) q = files (fs w) q"
  using assms
  by (auto simp: download_image_def download_image_try_def requests_get_def logging_info_def
        logging_error_def
      split: prod.splits option.splits sum.splits exn.splits dest: write_file_files)

lemma download_each_files:
  assumes "\<forall>name\<in>set names. q \<noteq> os_path_join f [name]"
  shows "files (fs (snd (download_each u f names w))) q = files (fs w) q"
  using assms
proof (induction names arbitrary: w)
  case Nil
  then show ?case by simp
next
  case (Cons name names)
  have one: "files (fs (snd (download_image (u @ ''/'' @ name) (os_path_join f [name]) w))) q
             = files (fs w) q"
    using Cons.prems by (intro download_image_files) simp
  show ?case
  proof (cases "download_image (u @ ''/'' @ name) (os_path_join f [name]) w")
    case (Pair r w1)
    then show ?thesis
      using one Cons.IH [of w1] Cons.prems by (cases r) simp_all
  qed
qed

lemma download_images_files:
  assumes "folder_path_of params = Inr f"
      and "params_image_names params = Some names"
      and "\<forall>name\<in>set names. q \<noteq> os_path_join f [name]"
  shows "files (fs (snd (download_images params w))) q = files (fs w) q"
proof -
  have each: "files (fs (snd (download_each u f names w1))) q = files (fs w1) q" for u w1
    using assms(3) by (rule download_each_files)
  show ?thesis
    using assms(1,2) each create_folder_files [of f w]
    by (auto simp: download_images_def logging_error_def Let_def
          split: option.splits prod.splits sum.splits)
qed

lemma fetch_html_content_fs: "fs (snd (fetch_html_content url w)) = fs w"
  by (auto simp: fetch_html_content_def requests_get_def logging_error_def
      split: prod.splits sum.splits http_outcome.splits exn.splits)

text \<open>
  Where \<open>main\<close> writes. For a timestamp of the form \<open>YYYY-MM-DD HH:MM\<close>, a run of \<open>main\<close>
  changes no file but at the paths that \<open>os.path.join\<close> gives for the image folder of the
  timestamp and a selected filename; and for a filename that does not start with \<open>/\<close>,
  this path is the image folder, \<open>/\<close> and the filename.
\<close>

lemma main_files_unchanged:
  assumes "timestamp_form dt"
      and "\<And>html names. extract_image_names find_pre html (split_ws types_line) dt = Inr names \<Longrightarrow>
             \<forall>name\<in>set names. q \<noteq> os_path_join (image_folder dt) [name]"
  shows "files (fs (snd (main find_pre types_line dt w))) q = files (fs w) q"
proof -
  let ?u = "listing_url (take 10 dt)"
  have sp: "split_ws dt = take 10 dt # [drop 11 dt]"
    using timestamp_form_split(1) [OF assms(1)] by simp
  obtain r w1 where f: "fetch_html_content ?u (greeting w) = (r, w1)"
    by (cases "fetch_html_content ?u (greeting w)")
  have fs1: "fs w1 = fs w"
    using f fetch_html_content_fs [of ?u "greeting w"] by (simp add: greeting_frame)
  show ?thesis
  proof (cases r)
    case (Inl e)
    then show ?thesis using sp f fs1 by (simp add: main_def Let_def)
  next
    case (Inr body)
    show ?thesis
    proof (cases body)
      case None
      then show ?thesis using Inr sp f fs1 by (simp add: main_def Let_def)
    next
      case (Some html)
      show ?thesis
      proof (cases "extract_image_names find_pre html (split_ws types_line) dt")
        case (Inl e)
        then show ?thesis using Some Inr sp f fs1 by (simp add: main_def Let_def)
      next
        case names: (Inr names)
        obtain params where params:
          "params_download_images ?u names dt = Inr params"
          "params_image_names params = Some names"
          "folder_path_of params = Inr (image_folder dt)"
          using timestamp_form_params [OF assms(1), of ?u names] by (auto simp: image_folder_def)
        have kept: "files (fs (snd (download_images params w1))) q = files (fs w1) q"
          using download_images_files [OF params(3) params(2)] assms(2) [OF names] by blast
        obtain res w2 where d: "download_images params w1 = (res, w2)"
          by (cases "download_images params w1")
        have "files (fs w2) q = files (fs w) q"
          using kept d fs1 by simp
        then show ?thesis
          using names Some Inr sp f fs1 params(1) d
          by (cases res) (simp_all add: main_def Let_def logging_info_def)
      qed
    qed
  qed
qed

lemma image_folder_join:
  assumes "timestamp_form dt" and "\<not> starts_with ''/'' name"
  shows "os_path_join (image_folder dt) [name] = image_folder dt @ ''/'' @ name"
  using timestamp_form_split [OF assms(1)] assms(2)
  by (simp add: image_folder_def)

lemma main_writes_joined_paths:
  assumes "timestamp_form dt"
      and "files (fs (snd (main find_pre types_line dt w))) q \<noteq> files (fs w) q"
  shows "\<exists>html names name.
           extract_image_names find_pre html (split_ws types_line) dt = Inr names \<and>
           name \<in> set names \<and> q = os_path_join (image_folder dt) [name]"
  using main_files_unchanged [OF assms(1), of find_pre types_line q w] assms(2) by blast

text \<open>
  Claim C9 fails on the code for a filename that starts with \<open>/\<close>. The listing line
  \<open>/x_HMIIC.jpg 2024-08-02 01:10 1K\<close> is selected with the filename \<open>/x_HMIIC.jpg\<close>;
  \<open>os.path.join\<close> drops the folder for it, and \<open>main\<close> writes the image to
  \<open>/x_HMIIC.jpg\<close>, not below \<open>images/imagesSDO/2024-08-02/01-10\<close>.
\<close>

theorem main_writes_outside_folder:
  "extract_image_names absolute_find_pre absolute_html [''HMIIC''] ''2024-08-02 01:10''
     = Inr [''/x_HMIIC.jpg'']
   \<and> fst (main absolute_find_pre ''HMIIC'' ''2024-08-02 01:10'' absolute_world) = Inr ()
   \<and> files (fs (snd (main absolute_find_pre ''HMIIC'' ''2024-08-02 01:10'' absolute_world)))
        ''/x_HMIIC.jpg'' = Some ''0123456789''
   \<and> files (fs (snd (main absolute_find_pre ''HMIIC'' ''2024-08-02 01:10'' absolute_world)))
        ''images/imagesSDO/2024-08-02/01-10//x_HMIIC.jpg'' = None
   \<and> files (fs (snd (main absolute_find_pre ''HMIIC'' ''2024-08-02 01:10'' absolute_world)))
        ''images/imagesSDO/2024-08-02/01-10/x_HMIIC.jpg'' = None"
  by code_simp

end
